theory Spec2Isabelle
  imports Complex_Main "HOL-Library.Multiset" "HOL-Library.Product_Lexorder"
begin

section \<open>Chart generators of the flight dashboard (components/charts.py)\<close>

text \<open>
  The three generators take a pandas table and a few selectors and return a Plotly
  figure. A table is modelled as the list of its rows, a row as a record of the columns
  the data model gives it, an exception as a value of \<open>py_error\<close>. A number in a table
  is the real it denotes, a float as well as an integer (no NaN and no infinity inside a
  table), so that comparing and taking the maximum are exact, as they are in the source.
  The one arithmetic operation of the source on such numbers, the product at line 195,
  rounds to a float: it is kept as a symbol and not computed. The value NaN that pandas
  returns for the maximum of an empty column is a constructor of its own.
\<close>

datatype py_error = KeyError | IndexError | TypeError | ValueError

subsection \<open>Python's \<open>dict.get(key, default)\<close>\<close>

definition dict_get :: "('k \<times> 'v) list \<Rightarrow> 'k \<Rightarrow> 'v \<Rightarrow> 'v" where
  "dict_get d k dflt = (case map_of d k of None \<Rightarrow> dflt | Some v \<Rightarrow> v)"

subsection \<open>Columns\<close>

text \<open>A column is read off a row as a number or as a string.\<close>

datatype 'r accessor = NumAcc "'r \<Rightarrow> real" | StrAcc "'r \<Rightarrow> string"

datatype cell = Num real | Str string

fun cell_of :: "'r accessor \<Rightarrow> 'r \<Rightarrow> cell" where
  "cell_of (NumAcc f) r = Num (f r)"
| "cell_of (StrAcc g) r = Str (g r)"

subsection \<open>The daily airline table\<close>

record daily_row =
  Day :: int
  Airline :: string
  FlightCount :: int
  AvgDepDelay :: real
  OnTimeRate :: real
  CancellationRate :: real

text \<open>
  \<open>df[name]\<close>: a column of the table is numeric or a column of strings; a name that is
  no column raises KeyError (here: \<open>None\<close>), also on a table without rows.
\<close>

definition daily_column :: "string \<Rightarrow> daily_row accessor option" where
  "daily_column name =
     (if name = ''Day'' then Some (NumAcc (\<lambda>r. real_of_int (Day r)))
      else if name = ''Airline'' then Some (StrAcc Airline)
      else if name = ''FlightCount'' then Some (NumAcc (\<lambda>r. real_of_int (FlightCount r)))
      else if name = ''AvgDepDelay'' then Some (NumAcc AvgDepDelay)
      else if name = ''OnTimeRate'' then Some (NumAcc OnTimeRate)
      else if name = ''CancellationRate'' then Some (NumAcc CancellationRate)
      else None)"

text \<open>pandas \<open>Series.unique()\<close>: the distinct values in order of first appearance.\<close>

fun unique :: "'a list \<Rightarrow> 'a list" where
  "unique [] = []"
| "unique (x # xs) = x # filter (\<lambda>y. y \<noteq> x) (unique xs)"

subsection \<open>Metric descriptors of the animated bar chart\<close>

record bar_config =
  title :: string
  subtitle :: string
  x_label :: string
  format :: string
  suffix :: string

definition cfg_FlightCount :: bar_config where
  "cfg_FlightCount = \<lparr>title = ''Daily Flight Volume by Airline'',
     subtitle = ''Number of flights operated each day'',
     x_label = ''Daily Flights'', format = '':,'', suffix = '' flights''\<rparr>"

definition cfg_AvgDepDelay :: bar_config where
  "cfg_AvgDepDelay = \<lparr>title = ''Average Departure Delay by Airline'',
     subtitle = ''Daily average delay in minutes'',
     x_label = ''Avg Delay (min)'', format = '':.1f'', suffix = '' min''\<rparr>"

definition cfg_OnTimeRate :: bar_config where
  "cfg_OnTimeRate = \<lparr>title = ''On-Time Performance by Airline'',
     subtitle = ''Percentage of flights arriving within 15 minutes'',
     x_label = ''On-Time %'', format = '':.1f'', suffix = ''%''\<rparr>"

definition metric_config :: "(string \<times> bar_config) list" where
  "metric_config = [(''FlightCount'', cfg_FlightCount), (''AvgDepDelay'', cfg_AvgDepDelay),
     (''OnTimeRate'', cfg_OnTimeRate)]"

subsection \<open>Filtering, range and sort (lines 189 to 199)\<close>

text \<open>
  \<open>if selected_airlines and len(selected_airlines) > 0\<close>: \<open>None\<close> and an empty
  collection are both falsy, and then the copy of the table is used whole.
\<close>

definition airlines_selected :: "string list option \<Rightarrow> bool" where
  "airlines_selected selected_airlines =
     (case selected_airlines of None \<Rightarrow> False | Some sel \<Rightarrow> sel \<noteq> [] \<and> length sel > 0)"

definition filter_airlines :: "daily_row list \<Rightarrow> string list option \<Rightarrow> daily_row list" where
  "filter_airlines daily_airline_df selected_airlines =
     (if airlines_selected selected_airlines
      then filter (\<lambda>r. Airline r \<in> set (the selected_airlines)) daily_airline_df
      else daily_airline_df)"

text \<open>
  \<open>df[metric].max()\<close>: NaN on a column without rows, else the greatest value. Of a
  string column only the kind of the result matters below.
\<close>

datatype max_value = NaN | MaxNum real | MaxStr

definition series_max :: "daily_row accessor \<Rightarrow> daily_row list \<Rightarrow> max_value" where
  "series_max acc df =
     (if df = [] then NaN
      else case acc of NumAcc f \<Rightarrow> MaxNum (Max (set (map f df))) | StrAcc g \<Rightarrow> MaxStr)"

text \<open>
  \<open>x_range_max = max_value * 1.1 if max_value > 0 else 100\<close>: \<open>NaN > 0\<close> is false,
  a string compared with \<open>0\<close> raises TypeError. \<open>Literal n\<close> is an integer literal of
  the source; \<open>Padded m\<close> is the float that Python's \<open>max_value * 1.1\<close> gives for the
  maximum \<open>m\<close> (the nearest float to the product, not the product itself).
\<close>

datatype range_max = Literal int | Padded real

fun x_range_bound :: "max_value \<Rightarrow> py_error + range_max" where
  "x_range_bound NaN = Inr (Literal 100)"
| "x_range_bound (MaxNum max_value) =
     Inr (if max_value > 0 then Padded max_value else Literal 100)"
| "x_range_bound MaxStr = Inl TypeError"

text \<open>
  \<open>df.sort_values(['Day', metric], ascending=[True, asc])\<close>: with several keys pandas
  sorts lexicographically and stably; a descending key compares in reverse and keeps
  ties in input order. Only reached with a numeric metric column or no rows at all.
\<close>

definition sort_keys :: "daily_row accessor \<Rightarrow> bool \<Rightarrow> daily_row \<Rightarrow> int \<times> real" where
  "sort_keys acc asc r =
     (Day r, case acc of NumAcc f \<Rightarrow> (if asc then f r else - f r) | StrAcc g \<Rightarrow> 0)"

definition sort_values :: "daily_row accessor \<Rightarrow> bool \<Rightarrow> daily_row list \<Rightarrow> daily_row list" where
  "sort_values acc asc df = sort_key (sort_keys acc asc) df"

definition ascending_metric :: "string \<Rightarrow> bool" where
  "ascending_metric metric = (metric \<in> set [''FlightCount'', ''OnTimeRate''])"

subsection \<open>The figure of the animated bar chart\<close>

text \<open>
  Of a Plotly figure the model keeps what the generator decides: the traces, the frames,
  the title, the two axes, and the animation controls. Colours, fonts, margins and hover
  templates are constants of the source and left out. A frame is named by its day (Plotly
  stores the name as the day's string).
\<close>

record bar_trace =
  trace_name :: string
  trace_rows :: "daily_row list"

record frame =
  frame_name :: int
  frame_data :: "bar_trace list"

record updatemenu =
  frame_duration :: nat
  transition_duration :: nat

record slider =
  currentvalue_prefix :: string

record bar_figure =
  fig_data :: "bar_trace list"
  fig_frames :: "frame list"
  x_column :: string
  title_text :: string
  xaxis_title :: string
  xaxis_range :: "(range_max \<times> range_max) option"
  yaxis_categoryorder :: string
  updatemenus :: "updatemenu list"
  sliders :: "slider list"

text \<open>
  \<open>px.bar(df, x=metric, y='Airline', color='Airline', animation_frame='Day')\<close>: one
  trace for each airline and day that has rows, the traces of a day in the order in which
  the airlines first appear in the table, the days in the order in which they first
  appear. Plotly Express keeps the frames, and adds the play menu and the slider, only
  when there is more than one frame.
\<close>

definition traces_of_day :: "daily_row list \<Rightarrow> int \<Rightarrow> bar_trace list" where
  "traces_of_day df d =
     map (\<lambda>a. \<lparr>trace_name = a, trace_rows = filter (\<lambda>r. Airline r = a \<and> Day r = d) df\<rparr>)
       (filter (\<lambda>a. filter (\<lambda>r. Airline r = a \<and> Day r = d) df \<noteq> [])
          (unique (map Airline df)))"

definition frame_list :: "daily_row list \<Rightarrow> frame list" where
  "frame_list df =
     map (\<lambda>d. \<lparr>frame_name = d, frame_data = traces_of_day df d\<rparr>) (unique (map Day df))"

definition px_bar :: "daily_row list \<Rightarrow> string \<Rightarrow> bar_figure" where
  "px_bar df metric =
     (let fl = frame_list df;
          animated = (length fl > 1)
      in \<lparr>fig_data = (case fl of [] \<Rightarrow> [] | f # _ \<Rightarrow> frame_data f),
          fig_frames = (if animated then fl else []),
          x_column = metric,
          title_text = [],
          xaxis_title = metric,
          xaxis_range = None,
          yaxis_categoryorder = ''trace'',
          updatemenus =
            (if animated then [\<lparr>frame_duration = 500, transition_duration = 500\<rparr>] else []),
          sliders = (if animated then [\<lparr>currentvalue_prefix = ''Day=''\<rparr>] else [])\<rparr>)"

text \<open>\<open>fig.update_layout(...)\<close>, lines 221 to 245.\<close>

definition update_layout :: "bar_config \<Rightarrow> range_max \<Rightarrow> bar_figure \<Rightarrow> bar_figure" where
  "update_layout config x_range_max fig =
     fig\<lparr>title_text := title config @ ''<br><sub>'' @ subtitle config @ ''</sub>'',
         xaxis_title := x_label config,
         xaxis_range := Some (Literal 0, x_range_max),
         yaxis_categoryorder := ''total ascending''\<rparr>"

text \<open>
  Lines 259 to 268. \<open>fig.layout.updatemenus[0]\<close> raises IndexError on a figure
  without a play menu; the slider is styled only if there is one.
\<close>

definition customize_animation :: "bar_figure \<Rightarrow> py_error + bar_figure" where
  "customize_animation fig =
     (case updatemenus fig of
        [] \<Rightarrow> Inl IndexError
      | m # ms \<Rightarrow>
          let fig = fig\<lparr>updatemenus :=
                      m\<lparr>frame_duration := 400, transition_duration := 150\<rparr> # ms\<rparr>
          in Inr (case sliders fig of
                    [] \<Rightarrow> fig
                  | s # ss \<Rightarrow> fig\<lparr>sliders := s\<lparr>currentvalue_prefix := ''Day: ''\<rparr> # ss\<rparr>))"

definition create_animated_airline_chart ::
    "daily_row list \<Rightarrow> string \<Rightarrow> string list option \<Rightarrow> py_error + bar_figure" where
  "create_animated_airline_chart daily_airline_df metric selected_airlines =
     (let config = dict_get metric_config metric cfg_FlightCount;
          df = filter_airlines daily_airline_df selected_airlines
      in case daily_column metric of
           None \<Rightarrow> Inl KeyError
         | Some acc \<Rightarrow>
             (case x_range_bound (series_max acc df) of
                Inl e \<Rightarrow> Inl e
              | Inr x_range_max \<Rightarrow>
                  let df = sort_values acc (\<not> ascending_metric metric) df;
                      fig = px_bar df metric;
                      fig = update_layout config x_range_max fig
                  in customize_animation fig))"

subsection \<open>The choropleth map (lines 49 to 145)\<close>

record state_row =
  StateCode :: string
  StateName :: string
  state_AvgDepDelay :: real
  state_CancellationRate :: real
  state_FlightCount :: int

definition state_column :: "string \<Rightarrow> state_row accessor option" where
  "state_column name =
     (if name = ''StateCode'' then Some (StrAcc StateCode)
      else if name = ''StateName'' then Some (StrAcc StateName)
      else if name = ''AvgDepDelay'' then Some (NumAcc state_AvgDepDelay)
      else if name = ''CancellationRate'' then Some (NumAcc state_CancellationRate)
      else if name = ''FlightCount'' then Some (NumAcc (\<lambda>r. real_of_int (state_FlightCount r)))
      else None)"

record map_config =
  map_title :: string
  color_scale :: string
  labels_z :: string
  hover_suffix :: string
  value_format :: string

definition map_AvgDepDelay :: map_config where
  "map_AvgDepDelay = \<lparr>map_title = ''Average Departure Delay by State'',
     color_scale = ''Teal'', labels_z = ''Avg Delay (min)'', hover_suffix = '' min'',
     value_format = ''.1f''\<rparr>"

definition map_CancellationRate :: map_config where
  "map_CancellationRate = \<lparr>map_title = ''Flight Cancellation Rate by State'',
     color_scale = ''Teal'', labels_z = ''Cancel Rate (%)'', hover_suffix = ''%'',
     value_format = ''.2f''\<rparr>"

definition map_FlightCount :: map_config where
  "map_FlightCount = \<lparr>map_title = ''Total Flight Volume by State'',
     color_scale = ''Teal'', labels_z = ''Total Flights'', hover_suffix = '' flights'',
     value_format = '',.0f''\<rparr>"

definition map_metric_config :: "(string \<times> map_config) list" where
  "map_metric_config = [(''AvgDepDelay'', map_AvgDepDelay),
     (''CancellationRate'', map_CancellationRate), (''FlightCount'', map_FlightCount)]"

text \<open>
  A label of the text layer: the state's name, a line break, the value formatted with
  \<open>value_format\<close>, the suffix. The digits Python prints are not modelled; the label
  keeps the value and the format it is printed with.
\<close>

record map_label =
  label_name :: string
  label_value :: real
  label_format :: string
  label_suffix :: string

record map_figure =
  locations :: "string list"
  color_values :: "cell list"
  color_column :: string
  color_continuous_scale :: string
  map_title_text :: string
  colorbar_title :: string
  text_locations :: "string list"
  text_labels :: "map_label list"

text \<open>
  \<open>px.choropleth(df, locations='StateCode', color=metric, ...)\<close>: Plotly Express
  raises ValueError when \<open>color\<close> names no column of the table.
\<close>

definition px_choropleth :: "state_row list \<Rightarrow> string \<Rightarrow> string \<Rightarrow> py_error + map_figure" where
  "px_choropleth df metric scale =
     (case state_column metric of
        None \<Rightarrow> Inl ValueError
      | Some acc \<Rightarrow>
          Inr \<lparr>locations = map StateCode df, color_values = map (cell_of acc) df,
               color_column = metric, color_continuous_scale = scale,
               map_title_text = [], colorbar_title = metric,
               text_locations = [], text_labels = []\<rparr>)"

text \<open>
  \<open>state_metrics_df.apply(lambda row: f"...{row[metric]:{value_format}}...", axis=1)\<close>:
  \<open>row[metric]\<close> raises KeyError on a name that is no column, and every value format
  of the table is a float format, which raises ValueError on a string.
\<close>

definition row_labels ::
    "state_row accessor option \<Rightarrow> map_config \<Rightarrow> state_row list \<Rightarrow> py_error + map_label list" where
  "row_labels column config df =
     (if df = [] then Inr []
      else case column of
             None \<Rightarrow> Inl KeyError
           | Some (NumAcc f) \<Rightarrow>
               Inr (map (\<lambda>row. \<lparr>label_name = StateName row, label_value = f row,
                          label_format = value_format config,
                          label_suffix = hover_suffix config\<rparr>) df)
           | Some (StrAcc g) \<Rightarrow> Inl ValueError)"

definition create_choropleth :: "state_row list \<Rightarrow> string \<Rightarrow> py_error + map_figure" where
  "create_choropleth state_metrics_df metric =
     (let config = dict_get map_metric_config metric map_AvgDepDelay
      in case px_choropleth state_metrics_df metric (color_scale config) of
           Inl e \<Rightarrow> Inl e
         | Inr fig \<Rightarrow>
             let fig = fig\<lparr>map_title_text := map_title config,
                           colorbar_title := labels_z config\<rparr>
             in (case row_labels (state_column metric) config state_metrics_df of
                   Inl e \<Rightarrow> Inl e
                 | Inr labels \<Rightarrow>
                     Inr (fig\<lparr>text_locations := map StateCode state_metrics_df,
                              text_labels := labels\<rparr>)))"

subsection \<open>The sunburst (lines 277 to 353)\<close>

record hierarchy_row =
  State :: string
  City :: string
  Airport :: string
  leaf_Airline :: string
  leaf_FlightCount :: int
  AvgDelay :: real

record sunburst_figure =
  sunburst_rows :: "hierarchy_row list"
  path :: "string list"
  values_column :: string
  sunburst_color :: string
  range_color :: "real \<times> real"
  sunburst_title_text :: string
  colorbar_tick0 :: real
  colorbar_dtick :: real

text \<open>\<open>if selected_state:\<close> is false for \<open>None\<close> and for the empty string.\<close>

definition state_selected :: "string option \<Rightarrow> bool" where
  "state_selected selected_state =
     (case selected_state of None \<Rightarrow> False | Some st \<Rightarrow> st \<noteq> [])"

definition filter_state :: "hierarchy_row list \<Rightarrow> string option \<Rightarrow> hierarchy_row list" where
  "filter_state hierarchy_df selected_state =
     (if state_selected selected_state
      then filter (\<lambda>r. Some (State r) = selected_state) hierarchy_df
      else hierarchy_df)"

text \<open>The arrow of the default subtitle, U+2192, as its three UTF-8 bytes.\<close>

definition arrow :: string where
  "arrow = [CHR 0xE2, CHR 0x86, CHR 0x92]"

definition sunburst_subtitle :: "string option \<Rightarrow> string" where
  "sunburst_subtitle selected_state =
     (if state_selected selected_state
      then ''Filtered: '' @ the selected_state
      else ''Click to drill down: State '' @ arrow @ '' City '' @ arrow @
           '' Airport '' @ arrow @ '' Airline'')"

text \<open>
  \<open>px.sunburst\<close> aggregates the rows along the path inside the library and can raise
  there (the weighted average of \<open>AvgDelay\<close> divides by a group's \<open>FlightCount\<close>).
  Which tables the library refuses is not decided by this repository: it is the parameter
  \<open>px_refuses\<close> of the model.
\<close>

definition px_sunburst ::
    "(hierarchy_row list \<Rightarrow> py_error option) \<Rightarrow> hierarchy_row list \<Rightarrow> real \<times> real
      \<Rightarrow> py_error + sunburst_figure" where
  "px_sunburst px_refuses df rng =
     (case px_refuses df of
        Some e \<Rightarrow> Inl e
      | None \<Rightarrow>
          Inr \<lparr>sunburst_rows = df, path = [''State'', ''City'', ''Airport'', ''Airline''],
               values_column = ''FlightCount'', sunburst_color = ''AvgDelay'',
               range_color = rng, sunburst_title_text = [],
               colorbar_tick0 = 0, colorbar_dtick = 0\<rparr>)"

definition create_sunburst ::
    "(hierarchy_row list \<Rightarrow> py_error option) \<Rightarrow> hierarchy_row list \<Rightarrow> string option
      \<Rightarrow> py_error + sunburst_figure" where
  "create_sunburst px_refuses hierarchy_df selected_state =
     (let hierarchy_df = filter_state hierarchy_df selected_state
      in case px_sunburst px_refuses hierarchy_df (0, 40) of
           Inl e \<Rightarrow> Inl e
         | Inr fig \<Rightarrow>
             Inr (fig\<lparr>sunburst_title_text :=
                        ''Flight Volume Hierarchy<br><sub>'' @
                        sunburst_subtitle selected_state @ ''</sub>'',
                      colorbar_tick0 := 0, colorbar_dtick := 10\<rparr>))"

subsection \<open>The generators over a store of tables\<close>

text \<open>
  A pandas table is an object that the caller and the generator share. To say what a call
  does to the caller's table, the tables live in a store, a table is passed by its
  address, and every pandas operation of the source says where its result goes:
  \<open>df.copy()\<close>, \<open>df[mask]\<close> and \<open>df.sort_values(...)\<close> (without
  \<open>inplace\<close>) each build a new table and leave their operand as it was; Plotly
  Express reads the table it is given.
\<close>

type_synonym 'r store = "'r list list"

definition alloc :: "'r store \<Rightarrow> 'r list \<Rightarrow> nat \<times> 'r store" where
  "alloc s t = (length s, s @ [t])"

definition df_copy :: "'r store \<Rightarrow> nat \<Rightarrow> nat \<times> 'r store" where
  "df_copy s a = alloc s (s ! a)"

definition df_select :: "'r store \<Rightarrow> nat \<Rightarrow> ('r \<Rightarrow> bool) \<Rightarrow> nat \<times> 'r store" where
  "df_select s a keep = alloc s (filter keep (s ! a))"

definition df_sort_values ::
    "daily_row store \<Rightarrow> nat \<Rightarrow> daily_row accessor \<Rightarrow> bool \<Rightarrow> nat \<times> daily_row store" where
  "df_sort_values s a acc asc = alloc s (sort_values acc asc (s ! a))"

definition create_animated_airline_chart_store ::
    "daily_row store \<Rightarrow> nat \<Rightarrow> string \<Rightarrow> string list option
      \<Rightarrow> (py_error + bar_figure) \<times> daily_row store" where
  "create_animated_airline_chart_store s daily_airline_df metric selected_airlines =
     (let config = dict_get metric_config metric cfg_FlightCount;
          (df, s) = df_copy s daily_airline_df;
          (df, s) = (if airlines_selected selected_airlines
                     then df_select s df (\<lambda>r. Airline r \<in> set (the selected_airlines))
                     else (df, s))
      in case daily_column metric of
           None \<Rightarrow> (Inl KeyError, s)
         | Some acc \<Rightarrow>
             (case x_range_bound (series_max acc (s ! df)) of
                Inl e \<Rightarrow> (Inl e, s)
              | Inr x_range_max \<Rightarrow>
                  let (df, s) = df_sort_values s df acc (\<not> ascending_metric metric);
                      fig = px_bar (s ! df) metric;
                      fig = update_layout config x_range_max fig
                  in (customize_animation fig, s)))"

definition create_choropleth_store ::
    "state_row store \<Rightarrow> nat \<Rightarrow> string \<Rightarrow> (py_error + map_figure) \<times> state_row store" where
  "create_choropleth_store s state_metrics_df metric =
     (create_choropleth (s ! state_metrics_df) metric, s)"

definition create_sunburst_store ::
    "(hierarchy_row list \<Rightarrow> py_error option) \<Rightarrow> hierarchy_row store \<Rightarrow> nat \<Rightarrow> string option
      \<Rightarrow> (py_error + sunburst_figure) \<times> hierarchy_row store" where
  "create_sunburst_store px_refuses s hierarchy_df selected_state =
     (let (hierarchy_df, s) =
            (if state_selected selected_state
             then df_select s hierarchy_df (\<lambda>r. Some (State r) = selected_state)
             else (hierarchy_df, s))
      in case px_sunburst px_refuses (s ! hierarchy_df) (0, 40) of
           Inl e \<Rightarrow> (Inl e, s)
         | Inr fig \<Rightarrow>
             (Inr (fig\<lparr>sunburst_title_text :=
                        ''Flight Volume Hierarchy<br><sub>'' @
                        sunburst_subtitle selected_state @ ''</sub>'',
                      colorbar_tick0 := 0, colorbar_dtick := 10\<rparr>), s))"

subsection \<open>Example tables\<close>

definition two_days :: "daily_row list" where
  "two_days =
     [\<lparr>Day = 2, Airline = ''AA'', FlightCount = 10, AvgDepDelay = 5, OnTimeRate = 80,
        CancellationRate = 1\<rparr>,
      \<lparr>Day = 1, Airline = ''DL'', FlightCount = 20, AvgDepDelay = - 3, OnTimeRate = 90,
        CancellationRate = 2\<rparr>,
      \<lparr>Day = 1, Airline = ''AA'', FlightCount = 30, AvgDepDelay = 7, OnTimeRate = 70,
        CancellationRate = 0\<rparr>]"

definition early_days :: "daily_row list" where
  "early_days =
     [\<lparr>Day = 1, Airline = ''AA'', FlightCount = 10, AvgDepDelay = - 3, OnTimeRate = 95,
        CancellationRate = 0\<rparr>,
      \<lparr>Day = 2, Airline = ''AA'', FlightCount = 12, AvgDepDelay = 0, OnTimeRate = 97,
        CancellationRate = 0\<rparr>]"

definition two_states :: "state_row list" where
  "two_states =
     [\<lparr>StateCode = ''CA'', StateName = ''California'', state_AvgDepDelay = 9.5,
        state_CancellationRate = 1.25, state_FlightCount = 1000\<rparr>,
      \<lparr>StateCode = ''NY'', StateName = ''New York'', state_AvgDepDelay = 12,
        state_CancellationRate = 2, state_FlightCount = 800\<rparr>]"

definition two_airports :: "hierarchy_row list" where
  "two_airports =
     [\<lparr>State = ''CA'', City = ''Los Angeles'', Airport = ''LAX'', leaf_Airline = ''AA'',
        leaf_FlightCount = 120, AvgDelay = - 5\<rparr>,
      \<lparr>State = ''NY'', City = ''New York'', Airport = ''JFK'', leaf_Airline = ''DL'',
        leaf_FlightCount = 90, AvgDelay = 75\<rparr>]"

section \<open>Properties\<close>

subsection \<open>Auxiliary facts\<close>

lemma set_unique: "set (unique xs) = set xs"
  by (induction xs) auto

lemma distinct_unique: "distinct (unique xs)"
  by (induction xs) (auto simp: set_unique)

lemma length_unique: "length (unique xs) = card (set xs)"
  using distinct_card [OF distinct_unique, of xs] by (simp add: set_unique)

lemma sorted_unique: "sorted xs \<Longrightarrow> sorted (unique xs)"
  by (induction xs) (auto simp: set_unique intro: sorted_wrt_filter)

lemma frame_names: "map frame_name (frame_list df) = unique (map Day df)"
  by (simp add: frame_list_def comp_def)

lemma customize_animation_Inr:
  assumes "customize_animation fig0 = Inr fig"
  shows "updatemenus fig0 \<noteq> []"
    and "fig_frames fig = fig_frames fig0"
    and "fig_data fig = fig_data fig0"
    and "title_text fig = title_text fig0"
    and "xaxis_title fig = xaxis_title fig0"
    and "xaxis_range fig = xaxis_range fig0"
    and "yaxis_categoryorder fig = yaxis_categoryorder fig0"
    and "x_column fig = x_column fig0"
  using assms unfolding customize_animation_def Let_def
  by (auto split: list.splits)

lemma px_bar_frames:
  "updatemenus (px_bar df metric) \<noteq> [] \<Longrightarrow> fig_frames (px_bar df metric) = frame_list df"
  by (simp add: px_bar_def Let_def split: if_splits)

lemma px_bar_menus:
  "updatemenus (px_bar df metric) \<noteq> [] \<Longrightarrow> 1 < length (frame_list df)"
  by (simp add: px_bar_def Let_def split: if_splits)

lemma update_layout_fields:
  "fig_frames (update_layout config b fig) = fig_frames fig"
  "updatemenus (update_layout config b fig) = updatemenus fig"
  "sliders (update_layout config b fig) = sliders fig"
  "title_text (update_layout config b fig) =
     title config @ ''<br><sub>'' @ subtitle config @ ''</sub>''"
  "xaxis_title (update_layout config b fig) = x_label config"
  "xaxis_range (update_layout config b fig) = Some (Literal 0, b)"
  "yaxis_categoryorder (update_layout config b fig) = ''total ascending''"
  "x_column (update_layout config b fig) = x_column fig"
  by (simp_all add: update_layout_def)

lemma create_animated_steps:
  assumes "daily_column metric = Some acc"
    and "x_range_bound (series_max acc (filter_airlines df sel)) = Inr b"
  shows "create_animated_airline_chart df metric sel =
     customize_animation
       (update_layout (dict_get metric_config metric cfg_FlightCount) b
          (px_bar (sort_values acc (\<not> ascending_metric metric) (filter_airlines df sel)) metric))"
  using assms by (simp add: create_animated_airline_chart_def Let_def)

lemma create_animated_Inr:
  assumes "create_animated_airline_chart df metric sel = Inr fig"
  obtains acc b where
    "daily_column metric = Some acc"
    "x_range_bound (series_max acc (filter_airlines df sel)) = Inr b"
    "customize_animation
       (update_layout (dict_get metric_config metric cfg_FlightCount) b
          (px_bar (sort_values acc (\<not> ascending_metric metric) (filter_airlines df sel)) metric))
     = Inr fig"
  using assms unfolding create_animated_airline_chart_def Let_def
  by (auto split: option.splits sum.splits)

lemma x_range_bound_numeric:
  "x_range_bound (series_max (NumAcc f) rows) =
     Inr (if rows = [] \<or> Max (f ` set rows) \<le> 0 then Literal 100
          else Padded (Max (f ` set rows)))"
proof -
  have "(if 0 < m then Padded m else Literal 100) =
      (if m \<le> 0 then Literal 100 else Padded m)" for m :: real
    by auto
  then show ?thesis
    by (cases "rows = []") (simp_all add: series_max_def del: Max_le_iff Max_less_iff)
qed

lemma sorted_days: "sorted (map Day (sort_values acc asc df))"
proof -
  have "sorted (map (sort_keys acc asc) (sort_values acc asc df))"
    by (simp add: sort_values_def)
  then have "sorted_wrt (\<lambda>x y. sort_keys acc asc x \<le> sort_keys acc asc y) (sort_values acc asc df)"
    by (simp add: sorted_wrt_map)
  then have "sorted_wrt (\<lambda>x y. Day x \<le> Day y) (sort_values acc asc df)"
    by (rule sorted_wrt_mono_rel [rotated]) (auto simp: sort_keys_def)
  then show ?thesis by (simp add: sorted_wrt_map)
qed

lemma set_sort_values: "set (sort_values acc asc df) = set df"
  by (simp add: sort_values_def)

lemma sort_values_lex:
  "sorted_wrt (\<lambda>x y. Day x < Day y \<or> Day x = Day y \<and> (if asc then f x \<le> f y else f y \<le> f x))
     (sort_values (NumAcc f) asc df)"
proof -
  have "sorted (map (sort_keys (NumAcc f) asc) (sort_values (NumAcc f) asc df))"
    by (simp add: sort_values_def)
  then have "sorted_wrt (\<lambda>x y. sort_keys (NumAcc f) asc x \<le> sort_keys (NumAcc f) asc y)
      (sort_values (NumAcc f) asc df)"
    by (simp add: sorted_wrt_map)
  then show ?thesis
    by (rule sorted_wrt_mono_rel [rotated]) (auto simp: sort_keys_def split: if_splits)
qed

lemma sort_values_stable:
  "filter (\<lambda>r. Day r = d \<and> f r = v) (sort_values (NumAcc f) asc df) =
   filter (\<lambda>r. Day r = d \<and> f r = v) df"
proof -
  let ?k = "(d, if asc then v else - v)"
  have eq: "(\<lambda>r. sort_keys (NumAcc f) asc r = ?k) = (\<lambda>r. Day r = d \<and> f r = v)"
    by (auto simp: sort_keys_def fun_eq_iff)
  show ?thesis
    using sort_key_stable [of "sort_keys (NumAcc f) asc" ?k df]
    unfolding eq by (simp add: sort_values_def)
qed

lemma airlines_selected_simps:
  "airlines_selected None = False"
  "airlines_selected (Some sel) = (sel \<noteq> [])"
  by (auto simp: airlines_selected_def)

lemmas chart_defs =
  create_animated_airline_chart_def customize_animation_def update_layout_def px_bar_def
  frame_list_def traces_of_day_def sort_values_def sort_keys_def ascending_metric_def
  series_max_def filter_airlines_def airlines_selected_def daily_column_def dict_get_def
  metric_config_def cfg_FlightCount_def cfg_AvgDepDelay_def cfg_OnTimeRate_def Let_def

lemma two_days_FlightCount:
  "\<exists>fig. create_animated_airline_chart two_days ''FlightCount'' None = Inr fig"
  by (simp add: chart_defs two_days_def)

lemma px_bar_no_rows: "updatemenus (px_bar [] metric) = []"
  by (simp add: px_bar_def frame_list_def)

lemma create_choropleth_Inr:
  assumes "create_choropleth sdf metric = Inr fig"
  shows "map_title_text fig = map_title (dict_get map_metric_config metric map_AvgDepDelay)"
    and "colorbar_title fig = labels_z (dict_get map_metric_config metric map_AvgDepDelay)"
  using assms unfolding create_choropleth_def px_choropleth_def Let_def
  by (auto split: option.splits sum.splits)

lemma create_animated_labels:
  assumes "create_animated_airline_chart df metric sel = Inr fig"
  shows "title_text fig = title (dict_get metric_config metric cfg_FlightCount) @ ''<br><sub>'' @
           subtitle (dict_get metric_config metric cfg_FlightCount) @ ''</sub>''"
    and "xaxis_title fig = x_label (dict_get metric_config metric cfg_FlightCount)"
    and "yaxis_categoryorder fig = ''total ascending''"
proof -
  from assms obtain acc b where
    c: "customize_animation
       (update_layout (dict_get metric_config metric cfg_FlightCount) b
          (px_bar (sort_values acc (\<not> ascending_metric metric) (filter_airlines df sel)) metric))
     = Inr fig"
    by (rule create_animated_Inr)
  show "title_text fig = title (dict_get metric_config metric cfg_FlightCount) @ ''<br><sub>'' @
           subtitle (dict_get metric_config metric cfg_FlightCount) @ ''</sub>''"
    using customize_animation_Inr(4) [OF c] by (simp add: update_layout_fields)
  show "xaxis_title fig = x_label (dict_get metric_config metric cfg_FlightCount)"
    using customize_animation_Inr(5) [OF c] by (simp add: update_layout_fields)
  show "yaxis_categoryorder fig = ''total ascending''"
    using customize_animation_Inr(7) [OF c] by (simp add: update_layout_fields)
qed

lemma create_animated_x_column:
  assumes "create_animated_airline_chart df metric sel = Inr fig"
  shows "x_column fig = metric"
proof -
  from assms obtain acc b where
    c: "customize_animation
       (update_layout (dict_get metric_config metric cfg_FlightCount) b
          (px_bar (sort_values acc (\<not> ascending_metric metric) (filter_airlines df sel)) metric))
     = Inr fig"
    by (rule create_animated_Inr)
  show ?thesis
    using customize_animation_Inr(8) [OF c]
    by (simp add: update_layout_fields px_bar_def Let_def)
qed

text \<open>
  For a metric that has an entry in the generator's own \<open>metric_config\<close>, every returned
  figure carries that entry's texts: the map its title and \<open>labels['z']\<close>, the bar chart
  its title and subtitle, composed, and its \<open>x_label\<close>.
\<close>

lemma descriptor_texts:
  "(map_of metric_config metric = Some config
      \<and> create_animated_airline_chart df metric sel = Inr fig \<longrightarrow>
        title_text fig = title config @ ''<br><sub>'' @ subtitle config @ ''</sub>''
      \<and> xaxis_title fig = x_label config)
   \<and> (map_of map_metric_config metric = Some mconfig
      \<and> create_choropleth sdf metric = Inr mfig \<longrightarrow>
        map_title_text mfig = map_title mconfig \<and> colorbar_title mfig = labels_z mconfig)"
proof -
  have a: "title_text fig = title config @ ''<br><sub>'' @ subtitle config @ ''</sub>''
      \<and> xaxis_title fig = x_label config"
    if "map_of metric_config metric = Some config"
      and "create_animated_airline_chart df metric sel = Inr fig"
    using create_animated_labels(1,2) [OF that(2)] that(1) by (simp add: dict_get_def)
  have b: "map_title_text mfig = map_title mconfig \<and> colorbar_title mfig = labels_z mconfig"
    if "map_of map_metric_config metric = Some mconfig"
      and "create_choropleth sdf metric = Inr mfig"
    using create_choropleth_Inr [OF that(2)] that(1) by (simp add: dict_get_def)
  show ?thesis using a b by blast
qed

lemma alloc_simps:
  "fst (alloc s t) = length s"
  "snd (alloc s t) = s @ [t]"
  by (simp_all add: alloc_def)

subsection \<open>The claims\<close>

text \<open>
  Claim C1. An unknown metric string falls back to the default descriptor
  (\<open>AvgDepDelay\<close> for the map, \<open>FlightCount\<close> for the bars), and both generators are
  claimed to return a figure without raising. The descriptor lookup does fall back. The
  generators then read the column named by the same string: when it is no column of the
  table, \<open>df[metric].max()\<close> raises KeyError in the bar chart and \<open>px.choropleth\<close>
  raises ValueError in the map, whatever the rows are.
\<close>

theorem unknown_metric_raises:
  "(daily_column metric = None \<longrightarrow>
      dict_get metric_config metric cfg_FlightCount = cfg_FlightCount
    \<and> create_animated_airline_chart df metric sel = Inl KeyError)
   \<and> (state_column metric = None \<longrightarrow>
      dict_get map_metric_config metric map_AvgDepDelay = map_AvgDepDelay
    \<and> create_choropleth sdf metric = Inl ValueError)"
  by (auto simp: create_animated_airline_chart_def create_choropleth_def px_choropleth_def
        Let_def dict_get_def metric_config_def map_metric_config_def daily_column_def
        state_column_def split: if_splits)

theorem unknown_metric_raises_witness:
  "daily_column ''Foo'' = None \<and> state_column ''Foo'' = None
   \<and> create_animated_airline_chart two_days ''Foo'' None = Inl KeyError
   \<and> create_choropleth two_states ''Foo'' = Inl ValueError"
proof -
  have a: "daily_column ''Foo'' = None" by (simp add: daily_column_def)
  have b: "state_column ''Foo'' = None" by (simp add: state_column_def)
  from unknown_metric_raises [of "''Foo''" two_days None two_states] show ?thesis
    using a b by simp
qed

text \<open>
  Claim C2. A generator called on a table without rows, or with a filter that leaves
  none, is claimed to return a valid empty figure. The animated bar chart does not: with
  no rows left after the airline filter Plotly Express builds no play menu, and line 259
  indexes \<open>updatemenus[0]\<close> without the guard that line 263 gives the slider, so the
  call ends in IndexError for every metric that names a column.
\<close>

theorem no_rows_raises:
  assumes "filter_airlines df sel = []" and "daily_column metric = Some acc"
  shows "create_animated_airline_chart df metric sel = Inl IndexError"
proof -
  have b: "x_range_bound (series_max acc (filter_airlines df sel)) = Inr (Literal 100)"
    using assms(1) by (simp add: series_max_def)
  show ?thesis
    unfolding create_animated_steps [OF assms(2) b] assms(1)
    by (simp add: sort_values_def customize_animation_def update_layout_def px_bar_no_rows)
qed

theorem no_rows_raises_witness:
  "create_animated_airline_chart [] ''FlightCount'' None = Inl IndexError
   \<and> filter_airlines two_days (Some [''ZZ'']) = []
   \<and> create_animated_airline_chart two_days ''FlightCount'' (Some [''ZZ'']) = Inl IndexError"
proof -
  have col: "daily_column ''FlightCount'' = Some (NumAcc (\<lambda>r. real_of_int (FlightCount r)))"
    by (simp add: daily_column_def)
  have e1: "filter_airlines [] None = []"
    by (simp add: filter_airlines_def)
  have e2: "filter_airlines two_days (Some [''ZZ'']) = []"
    by (simp add: filter_airlines_def airlines_selected_def two_days_def)
  from no_rows_raises [OF e1 col] no_rows_raises [OF e2 col] e2 show ?thesis by simp
qed

text \<open>
  Claim C3. For every metric of the chart the title and the axis or colour-bar label are
  claimed to be that metric's descriptor texts, CancellationRate being one of the four
  metrics of the bar chart. The bar chart's \<open>metric_config\<close> has no entry for
  CancellationRate, although the caller offers that metric and the map has an entry for
  it: every chart of that column is returned under FlightCount's title and x-axis label.
\<close>

theorem cancellation_rate_labels:
  "map_of metric_config ''CancellationRate'' = None
   \<and> (\<forall>fig. create_animated_airline_chart df ''CancellationRate'' sel = Inr fig \<longrightarrow>
          x_column fig = ''CancellationRate''
        \<and> title_text fig =
            ''Daily Flight Volume by Airline<br><sub>Number of flights operated each day</sub>''
        \<and> xaxis_title fig = ''Daily Flights'')"
proof -
  have none: "map_of metric_config ''CancellationRate'' = None"
    by (simp add: metric_config_def)
  have dflt: "dict_get metric_config ''CancellationRate'' cfg_FlightCount = cfg_FlightCount"
    by (simp add: dict_get_def none)
  have "x_column fig = ''CancellationRate''
        \<and> title_text fig =
            ''Daily Flight Volume by Airline<br><sub>Number of flights operated each day</sub>''
        \<and> xaxis_title fig = ''Daily Flights''"
    if r: "create_animated_airline_chart df ''CancellationRate'' sel = Inr fig" for fig
    using create_animated_labels(1,2) [OF r] create_animated_x_column [OF r]
    unfolding dflt by (simp add: cfg_FlightCount_def)
  with none show ?thesis by blast
qed

theorem cancellation_rate_labels_witness:
  "map_of metric_config ''CancellationRate'' = None
   \<and> map_of map_metric_config ''CancellationRate'' = Some map_CancellationRate
   \<and> (\<exists>fig. create_animated_airline_chart two_days ''CancellationRate'' None = Inr fig
        \<and> x_column fig = ''CancellationRate''
        \<and> title_text fig =
            ''Daily Flight Volume by Airline<br><sub>Number of flights operated each day</sub>''
        \<and> xaxis_title fig = ''Daily Flights'')"
proof -
  obtain fig where
    fig: "create_animated_airline_chart two_days ''CancellationRate'' None = Inr fig"
    by (simp add: chart_defs two_days_def)
  have m: "map_of map_metric_config ''CancellationRate'' = Some map_CancellationRate"
    by (simp add: map_metric_config_def)
  from cancellation_rate_labels [of two_days None] fig m show ?thesis by blast
qed

text \<open>
  Claim C4. The upper bound of the x-axis is claimed to be 1.1 times the maximum of the
  metric over the filtered rows, and exactly 100 when no row is left or the maximum is at
  most 0. Every returned figure has the range from 0 to the bound of line 195: the
  literal 100 when the maximum is at most 0, else the product \<open>max_value * 1.1\<close> as
  Python computes it. With no row left line 195 computes 100 as well, but the call
  returns no figure to carry it: it ends in IndexError at line 259.
\<close>

theorem x_axis_upper_bound:
  assumes "daily_column metric = Some (NumAcc f)"
  shows "let rows = filter_airlines df sel
         in (rows = [] \<longrightarrow>
               x_range_bound (series_max (NumAcc f) rows) = Inr (Literal 100)
             \<and> create_animated_airline_chart df metric sel = Inl IndexError)
          \<and> (\<forall>fig. create_animated_airline_chart df metric sel = Inr fig \<longrightarrow>
               rows \<noteq> []
             \<and> xaxis_range fig =
                 Some (Literal 0,
                   if Max (f ` set rows) \<le> 0 then Literal 100
                   else Padded (Max (f ` set rows))))"
proof -
  let ?rows = "filter_airlines df sel"
  let ?b = "if ?rows = [] \<or> Max (f ` set ?rows) \<le> 0 then Literal 100
            else Padded (Max (f ` set ?rows))"
  let ?fig0 = "update_layout (dict_get metric_config metric cfg_FlightCount) ?b
      (px_bar (sort_values (NumAcc f) (\<not> ascending_metric metric) ?rows) metric)"
  have a: "x_range_bound (series_max (NumAcc f) ?rows) = Inr ?b"
    by (rule x_range_bound_numeric)
  have s: "create_animated_airline_chart df metric sel = customize_animation ?fig0"
    by (rule create_animated_steps [OF assms a])
  have e: "x_range_bound (series_max (NumAcc f) ?rows) = Inr (Literal 100)
      \<and> create_animated_airline_chart df metric sel = Inl IndexError"
    if "?rows = []"
  proof -
    have "customize_animation ?fig0 = Inl IndexError"
      unfolding that
      by (simp add: sort_values_def customize_animation_def update_layout_def px_bar_no_rows)
    with a s that show ?thesis by simp
  qed
  have r: "?rows \<noteq> [] \<and> xaxis_range fig =
      Some (Literal 0,
        if Max (f ` set ?rows) \<le> 0 then Literal 100 else Padded (Max (f ` set ?rows)))"
    if ret: "create_animated_airline_chart df metric sel = Inr fig" for fig
  proof -
    have ne: "?rows \<noteq> []"
      using e ret by auto
    have "xaxis_range fig = xaxis_range ?fig0"
      using customize_animation_Inr(6) [of ?fig0 fig] ret unfolding s by simp
    then show ?thesis
      using ne by (simp add: update_layout_fields)
  qed
  show ?thesis unfolding Let_def using e r by blast
qed

theorem x_axis_upper_bound_witness:
  "daily_column ''FlightCount'' = Some (NumAcc (\<lambda>r. real_of_int (FlightCount r)))
   \<and> filter_airlines [] None = []
   \<and> x_range_bound (series_max (NumAcc (\<lambda>r. real_of_int (FlightCount r)))
        (filter_airlines [] None)) = Inr (Literal 100)
   \<and> create_animated_airline_chart [] ''FlightCount'' None = Inl IndexError
   \<and> (\<exists>fig. create_animated_airline_chart two_days ''FlightCount'' None = Inr fig
        \<and> xaxis_range fig = Some (Literal 0, Padded 30))
   \<and> daily_column ''AvgDepDelay'' = Some (NumAcc AvgDepDelay)
   \<and> (\<exists>fig. create_animated_airline_chart early_days ''AvgDepDelay'' None = Inr fig
        \<and> xaxis_range fig = Some (Literal 0, Literal 100))"
proof -
  have col: "daily_column ''FlightCount'' = Some (NumAcc (\<lambda>r. real_of_int (FlightCount r)))"
    by (simp add: daily_column_def)
  have col': "daily_column ''AvgDepDelay'' = Some (NumAcc AvgDepDelay)"
    by (simp add: daily_column_def)
  have e: "filter_airlines [] None = []"
    by (simp add: filter_airlines_def)
  have rows: "filter_airlines two_days None = two_days"
    by (simp add: filter_airlines_def airlines_selected_def)
  have rows': "filter_airlines early_days None = early_days"
    by (simp add: filter_airlines_def airlines_selected_def)
  have m: "Max ((\<lambda>r. real_of_int (FlightCount r)) ` set two_days) = 30"
    by (simp add: two_days_def)
  have m': "Max (AvgDepDelay ` set early_days) = 0"
    by (simp add: early_days_def)
  from two_days_FlightCount obtain fig
    where fig: "create_animated_airline_chart two_days ''FlightCount'' None = Inr fig" ..
  obtain fig' where
    fig': "create_animated_airline_chart early_days ''AvgDepDelay'' None = Inr fig'"
    by (simp add: chart_defs early_days_def)
  from x_axis_upper_bound [OF col, of "[]" None]
  have 1: "x_range_bound (series_max (NumAcc (\<lambda>r. real_of_int (FlightCount r)))
        (filter_airlines [] None)) = Inr (Literal 100)
      \<and> create_animated_airline_chart [] ''FlightCount'' None = Inl IndexError"
    unfolding Let_def using e by simp
  from x_axis_upper_bound [OF col, of two_days None] fig
  have 2: "xaxis_range fig = Some (Literal 0, Padded 30)"
    unfolding Let_def rows m by simp
  from x_axis_upper_bound [OF col', of early_days None] fig'
  have 3: "xaxis_range fig' = Some (Literal 0, Literal 100)"
    unfolding Let_def rows' m' by simp
  show ?thesis using col col' e 1 2 3 fig fig' by blast
qed

text \<open>
  Claim C5. The filtered rows are sorted by \<open>Day\<close> ascending; rows of the same day
  are in descending order of the metric when the metric is FlightCount or OnTimeRate and
  in ascending order otherwise; rows that agree on day and metric keep their input order;
  the sort only permutes the rows. The figure is built from the table in that order.
\<close>

theorem sort_order:
  assumes "daily_column metric = Some (NumAcc f)"
  shows "let rows = filter_airlines df sel;
             out = sort_values (NumAcc f) (\<not> ascending_metric metric) rows
         in mset out = mset rows
          \<and> sorted (map Day out)
          \<and> sorted_wrt (\<lambda>x y. Day x = Day y \<longrightarrow>
                (if metric = ''FlightCount'' \<or> metric = ''OnTimeRate''
                 then f y \<le> f x else f x \<le> f y)) out
          \<and> (\<forall>d v. filter (\<lambda>r. Day r = d \<and> f r = v) out =
                     filter (\<lambda>r. Day r = d \<and> f r = v) rows)
          \<and> (\<forall>b. x_range_bound (series_max (NumAcc f) rows) = Inr b \<longrightarrow>
                create_animated_airline_chart df metric sel =
                customize_animation
                  (update_layout (dict_get metric_config metric cfg_FlightCount) b
                     (px_bar out metric)))"
proof -
  let ?rows = "filter_airlines df sel"
  let ?out = "sort_values (NumAcc f) (\<not> ascending_metric metric) ?rows"
  have a: "mset ?out = mset ?rows" by (simp add: sort_values_def)
  have b: "sorted (map Day ?out)" by (rule sorted_days)
  have c: "sorted_wrt (\<lambda>x y. Day x = Day y \<longrightarrow>
                (if metric = ''FlightCount'' \<or> metric = ''OnTimeRate''
                 then f y \<le> f x else f x \<le> f y)) ?out"
    by (rule sorted_wrt_mono_rel [OF _ sort_values_lex])
       (auto simp: ascending_metric_def split: if_splits)
  have d: "\<forall>d v. filter (\<lambda>r. Day r = d \<and> f r = v) ?out =
                     filter (\<lambda>r. Day r = d \<and> f r = v) ?rows"
    by (simp add: sort_values_stable)
  have e: "\<forall>b. x_range_bound (series_max (NumAcc f) ?rows) = Inr b \<longrightarrow>
                create_animated_airline_chart df metric sel =
                customize_animation
                  (update_layout (dict_get metric_config metric cfg_FlightCount) b
                     (px_bar ?out metric))"
    using create_animated_steps [OF assms] by blast
  show ?thesis unfolding Let_def using a b c d e by blast
qed

theorem sort_order_witness:
  "daily_column ''FlightCount'' = Some (NumAcc (\<lambda>r. real_of_int (FlightCount r)))
   \<and> map (\<lambda>r. (Day r, Airline r, FlightCount r))
        (sort_values (NumAcc (\<lambda>r. real_of_int (FlightCount r)))
           (\<not> ascending_metric ''FlightCount'') (filter_airlines two_days None))
       = [(1, ''AA'', 30), (1, ''DL'', 20), (2, ''AA'', 10)]
   \<and> sorted (map Day
        (sort_values (NumAcc (\<lambda>r. real_of_int (FlightCount r)))
           (\<not> ascending_metric ''FlightCount'') (filter_airlines two_days None)))
   \<and> mset (sort_values (NumAcc (\<lambda>r. real_of_int (FlightCount r)))
           (\<not> ascending_metric ''FlightCount'') (filter_airlines two_days None))
       = mset (filter_airlines two_days None)"
proof -
  have col: "daily_column ''FlightCount'' = Some (NumAcc (\<lambda>r. real_of_int (FlightCount r)))"
    by (simp add: daily_column_def)
  have ev: "map (\<lambda>r. (Day r, Airline r, FlightCount r))
        (sort_values (NumAcc (\<lambda>r. real_of_int (FlightCount r)))
           (\<not> ascending_metric ''FlightCount'') (filter_airlines two_days None))
       = [(1, ''AA'', 30), (1, ''DL'', 20), (2, ''AA'', 10)]"
    by (simp add: sort_values_def sort_keys_def ascending_metric_def filter_airlines_def
          airlines_selected_def two_days_def)
  from sort_order [OF col, of two_days None] show ?thesis
    unfolding Let_def using col ev by blast
qed

text \<open>
  Claim C6. \<open>selected_airlines = None\<close> and an empty collection give the same result,
  both on the whole table; a non-empty collection gives the result of the call on the rows
  whose \<open>Airline\<close> is in the collection.
\<close>

theorem airline_filter:
  "create_animated_airline_chart df metric None =
     create_animated_airline_chart df metric (Some [])
   \<and> filter_airlines df None = df
   \<and> filter_airlines df (Some []) = df
   \<and> (sel \<noteq> [] \<longrightarrow>
        filter_airlines df (Some sel) = filter (\<lambda>r. Airline r \<in> set sel) df
      \<and> create_animated_airline_chart df metric (Some sel) =
        create_animated_airline_chart (filter (\<lambda>r. Airline r \<in> set sel) df) metric None)"
  by (simp add: create_animated_airline_chart_def filter_airlines_def airlines_selected_simps)

theorem airline_filter_witness:
  "[''AA''] \<noteq> ([] :: string list)
   \<and> map (\<lambda>r. (Day r, Airline r)) (filter_airlines two_days (Some [''AA'']))
       = [(2, ''AA''), (1, ''AA'')]
   \<and> create_animated_airline_chart two_days ''OnTimeRate'' (Some [''AA'']) =
       create_animated_airline_chart (filter (\<lambda>r. Airline r \<in> set [''AA'']) two_days)
         ''OnTimeRate'' None
   \<and> create_animated_airline_chart two_days ''OnTimeRate'' None =
       create_animated_airline_chart two_days ''OnTimeRate'' (Some [])"
proof -
  have ne: "[''AA''] \<noteq> ([] :: string list)" by simp
  have ev: "map (\<lambda>r. (Day r, Airline r)) (filter (\<lambda>r. Airline r \<in> set [''AA'']) two_days)
       = [(2, ''AA''), (1, ''AA'')]"
    by (simp add: two_days_def)
  from airline_filter [of two_days "''OnTimeRate''" "[''AA'']"] show ?thesis
    using ne ev by simp
qed

text \<open>
  Claim C7. Every figure that \<open>create_sunburst\<close> returns has the colour domain
  \<open>[0, 40]\<close>, whatever the \<open>AvgDelay\<close> values of the table and whichever tables the
  library accepts.
\<close>

theorem sunburst_color_domain:
  assumes "create_sunburst px_refuses hierarchy_df selected_state = Inr fig"
  shows "range_color fig = (0, 40)"
  using assms unfolding create_sunburst_def px_sunburst_def Let_def
  by (auto split: option.splits)

theorem sunburst_color_domain_witness:
  "map AvgDelay two_airports = [- 5, 75]
   \<and> (\<exists>fig. create_sunburst (\<lambda>df. None) two_airports None = Inr fig
        \<and> sunburst_rows fig = two_airports \<and> range_color fig = (0, 40))"
proof -
  obtain fig where fig: "create_sunburst (\<lambda>df. None) two_airports None = Inr fig"
    by (simp add: create_sunburst_def px_sunburst_def)
  have rows: "sunburst_rows fig = two_airports"
    using fig by (auto simp: create_sunburst_def px_sunburst_def filter_state_def state_selected_def)
  have "map AvgDelay two_airports = [- 5, 75]" by (simp add: two_airports_def)
  with sunburst_color_domain [OF fig] fig rows show ?thesis by blast
qed

text \<open>
  Claim C8. In every figure that \<open>create_animated_airline_chart\<close> returns, the number
  of frames is the number of distinct \<open>Day\<close> values of the filtered rows, the frames
  are named by exactly those days, and they stand in increasing order of day. (A figure is
  returned only when there are at least two such days.)
\<close>

theorem frame_count_and_order:
  assumes "create_animated_airline_chart df metric sel = Inr fig"
  shows "length (fig_frames fig) = card (Day ` set (filter_airlines df sel))
    \<and> 2 \<le> length (fig_frames fig)
    \<and> sorted (map frame_name (fig_frames fig))
    \<and> distinct (map frame_name (fig_frames fig))
    \<and> set (map frame_name (fig_frames fig)) = Day ` set (filter_airlines df sel)"
proof -
  from assms obtain acc b where
    c: "customize_animation
       (update_layout (dict_get metric_config metric cfg_FlightCount) b
          (px_bar (sort_values acc (\<not> ascending_metric metric) (filter_airlines df sel)) metric))
     = Inr fig"
    by (rule create_animated_Inr)
  let ?out = "sort_values acc (\<not> ascending_metric metric) (filter_airlines df sel)"
  from customize_animation_Inr(1,2) [OF c]
  have um: "updatemenus (px_bar ?out metric) \<noteq> []"
    and ff: "fig_frames fig = fig_frames (px_bar ?out metric)"
    by (simp_all add: update_layout_fields)
  have fr: "fig_frames fig = frame_list ?out"
    using ff px_bar_frames [OF um] by simp
  have two: "1 < length (frame_list ?out)"
    by (rule px_bar_menus [OF um])
  from fr have names: "map frame_name (fig_frames fig) = unique (map Day ?out)"
    by (simp add: frame_names)
  have "length (fig_frames fig) = length (map frame_name (fig_frames fig))" by simp
  also have "\<dots> = card (Day ` set (filter_airlines df sel))"
    unfolding names by (simp add: length_unique set_sort_values)
  finally have n: "length (fig_frames fig) = card (Day ` set (filter_airlines df sel))" .
  show ?thesis
    using n two unfolding names
    by (simp add: fr sorted_unique sorted_days distinct_unique set_unique set_sort_values)
qed

theorem frame_count_and_order_witness:
  "\<exists>fig. create_animated_airline_chart two_days ''FlightCount'' None = Inr fig
     \<and> length (fig_frames fig) = 2
     \<and> sorted (map frame_name (fig_frames fig))
     \<and> set (map frame_name (fig_frames fig)) = {1, 2}"
proof -
  from two_days_FlightCount obtain fig
    where fig: "create_animated_airline_chart two_days ''FlightCount'' None = Inr fig" ..
  have days: "Day ` set (filter_airlines two_days None) = {1, 2}"
    by (auto simp: filter_airlines_def airlines_selected_def two_days_def)
  from frame_count_and_order [OF fig] show ?thesis
    unfolding days using fig by auto
qed

text \<open>
  Claim C9. After a call of any of the three generators every table that was in the
  store before the call, the caller's table among them, is what it was: the bar chart and
  the sunburst only add tables of their own, the map adds none. The result of the call
  is the one the generator computes from the contents of the caller's table.
\<close>

theorem input_table_unchanged:
  assumes "a < length s" and "b < length ss" and "c < length hs"
  shows "take (length s) (snd (create_animated_airline_chart_store s a metric sel)) = s
    \<and> snd (create_animated_airline_chart_store s a metric sel) ! a = s ! a
    \<and> fst (create_animated_airline_chart_store s a metric sel) =
        create_animated_airline_chart (s ! a) metric sel
    \<and> snd (create_choropleth_store ss b metric) = ss
    \<and> fst (create_choropleth_store ss b metric) = create_choropleth (ss ! b) metric
    \<and> take (length hs) (snd (create_sunburst_store px_refuses hs c selected_state)) = hs
    \<and> snd (create_sunburst_store px_refuses hs c selected_state) ! c = hs ! c
    \<and> fst (create_sunburst_store px_refuses hs c selected_state) =
        create_sunburst px_refuses (hs ! c) selected_state"
  using assms
  unfolding create_animated_airline_chart_store_def create_animated_airline_chart_def
    create_choropleth_store_def create_sunburst_store_def create_sunburst_def
    df_copy_def df_select_def df_sort_values_def alloc_def filter_airlines_def filter_state_def
    Let_def
  by (auto simp: nth_append split: option.splits sum.splits prod.splits)

theorem input_table_unchanged_witness:
  "(0::nat) < length [two_days] \<and> (0::nat) < length [two_states]
   \<and> (0::nat) < length [two_airports]
   \<and> snd (create_animated_airline_chart_store [two_days] 0 ''FlightCount'' (Some [''AA''])) ! 0
       = two_days
   \<and> length (snd (create_animated_airline_chart_store [two_days] 0 ''FlightCount''
         (Some [''AA'']))) = 4
   \<and> snd (create_choropleth_store [two_states] 0 ''FlightCount'') = [two_states]
   \<and> snd (create_sunburst_store (\<lambda>df. None) [two_airports] 0 (Some ''CA'')) ! 0
       = two_airports
   \<and> length (snd (create_sunburst_store (\<lambda>df. None) [two_airports] 0 (Some ''CA''))) = 2"
proof -
  have n: "length (snd (create_animated_airline_chart_store [two_days] 0 ''FlightCount''
         (Some [''AA'']))) = 4"
    by (simp add: create_animated_airline_chart_store_def df_copy_def df_select_def
          df_sort_values_def alloc_def airlines_selected_def daily_column_def series_max_def
          two_days_def Let_def)
  have m: "length (snd (create_sunburst_store (\<lambda>df. None) [two_airports] 0 (Some ''CA''))) = 2"
    by (simp add: create_sunburst_store_def df_select_def alloc_def state_selected_def
          px_sunburst_def Let_def)
  from input_table_unchanged [of 0 "[two_days]" 0 "[two_states]" 0 "[two_airports]"
      "''FlightCount''" "Some [''AA'']" "\<lambda>df. None" "Some ''CA''"]
  show ?thesis using n m by simp
qed

end
